theory Spec2Isabelle
  imports Complex_Main
begin

unbundle bit_operations_syntax

section \<open>Python values, exceptions and slices\<close>

text \<open>
  The two scripts of \<^verbatim>\<open>lesson_10/homework\<close> are glue code around OpenCV and numpy.
  Exceptions are values: a function that can raise returns \<open>error + 'a\<close>, and the two
  scripts, whose effects are visible from outside, return the trace of effects that
  happened before the exception together with it.
\<close>

datatype error =
    ValueError string
  | TypeError
  | IndexError
  | CvError

text \<open>
  Coordinates are float32 in OpenCV; they are modelled as rationals, and Python's
  \<^verbatim>\<open>int(v)\<close> truncates toward zero.
\<close>

definition py_int :: "rat \<Rightarrow> int" where
  "py_int q = (if 0 \<le> q then \<lfloor>q\<rfloor> else \<lceil>q\<rceil>)"

text \<open>
  A slice \<^verbatim>\<open>lo:hi\<close> over a dimension of length \<open>n\<close>: a negative bound counts from the
  end, and every bound is clamped into \<open>0..n\<close>. The slice selects the indices
  \<open>start..<stop\<close>, none when \<open>stop \<le> start\<close>.
\<close>

type_synonym slice = "int option \<times> int option"

definition slice_bound :: "nat \<Rightarrow> int \<Rightarrow> nat" where
  "slice_bound n i = (if i < 0 then nat (max 0 (i + int n)) else min (nat i) n)"

definition slice_range :: "nat \<Rightarrow> slice \<Rightarrow> nat \<times> nat" where
  "slice_range n sl =
     (case sl of (lo, hi) \<Rightarrow>
        (case lo of None \<Rightarrow> 0 | Some i \<Rightarrow> slice_bound n i,
         case hi of None \<Rightarrow> n | Some i \<Rightarrow> slice_bound n i))"

section \<open>Images as numpy arrays\<close>

text \<open>
  An image is an array of shape \<open>(nrows, ncols)\<close> of pixels (a pixel is a sample or a
  BGR triple). The shape is kept beside the rows, since an array of shape \<open>(0, w)\<close> still
  has its width.
\<close>

record 'p image =
  nrows :: nat
  ncols :: nat
  px :: "'p list list"

definition wf_image :: "'p image \<Rightarrow> bool" where
  "wf_image a = (length (px a) = nrows a \<and> list_all (\<lambda>row. length row = ncols a) (px a))"

text \<open>\<^verbatim>\<open>a[r_lo:r_hi, c_lo:c_hi]\<close>\<close>

definition np_getitem :: "'p image \<Rightarrow> slice \<Rightarrow> slice \<Rightarrow> 'p image" where
  "np_getitem a rs cs =
     (case (slice_range (nrows a) rs, slice_range (ncols a) cs) of
        ((r0, r1), (c0, c1)) \<Rightarrow>
          \<lparr>nrows = r1 - r0, ncols = c1 - c0,
           px = map (\<lambda>row. take (c1 - c0) (drop c0 row)) (take (r1 - r0) (drop r0 (px a)))\<rparr>)"

text \<open>
  \<^verbatim>\<open>a[r_lo:r_hi, c_lo:c_hi] = v\<close>: numpy broadcasts \<open>v\<close> to the shape of the target, which
  needs every dimension of \<open>v\<close> to be the target's or 1, and raises ValueError otherwise
  (nothing is written then). The array keeps its shape: an index outside it does not
  exist.
\<close>

definition np_setitem :: "'p image \<Rightarrow> slice \<Rightarrow> slice \<Rightarrow> 'p image \<Rightarrow> error + 'p image" where
  "np_setitem a rs cs v =
     (case (slice_range (nrows a) rs, slice_range (ncols a) cs) of
        ((r0, r1), (c0, c1)) \<Rightarrow>
          if (nrows v = r1 - r0 \<or> nrows v = 1) \<and> (ncols v = c1 - c0 \<or> ncols v = 1)
          then Inr (a\<lparr>px :=
                 map (\<lambda>r. map (\<lambda>c.
                        if r0 \<le> r \<and> r < r1 \<and> c0 \<le> c \<and> c < c1
                        then px v ! (if nrows v = 1 then 0 else r - r0)
                                  ! (if ncols v = 1 then 0 else c - c0)
                        else px a ! r ! c) [0..<ncols a]) [0..<nrows a]\<rparr>)
          else Inl (ValueError ''could not broadcast input array''))"

section \<open>Frames, drawing and the store\<close>

text \<open>
  OpenCV's drawing calls rasterise into the frame they are given. The rasteriser is not
  part of this repository: a frame records, beside its pixels, the primitives drawn on
  it, in order. In both scripts every pixel write to a frame comes before the first
  drawing call on it. A primitive keeps the arguments that vary: the points, the text,
  the radius, the color and the thickness (the font, the font scale and the tip length
  are constants of the scripts).
\<close>

type_synonym point = "int \<times> int"
type_synonym color = "int \<times> int \<times> int"
type_synonym rect = "rat \<times> rat \<times> rat \<times> rat"

datatype draw =
    Rectangle point point color int
  | PutText string point color int
  | Circle point int color int
  | ArrowedLine point point color int

record 'p frame =
  pixels :: "'p image"
  marks :: "draw list"

text \<open>
  Frames that are mutated in place live in a store, a list of objects addressed by
  their index. \<^verbatim>\<open>frame.copy()\<close> allocates a new object.
\<close>

type_synonym 'p store = "'p frame list"

definition np_copy :: "'p store \<Rightarrow> 'p frame \<Rightarrow> 'p store \<times> nat" where
  "np_copy hp f = (hp @ [f], length hp)"

definition draw_on :: "'p store \<Rightarrow> nat \<Rightarrow> draw \<Rightarrow> 'p store" where
  "draw_on hp r d = hp[r := (hp ! r)\<lparr>marks := marks (hp ! r) @ [d]\<rparr>]"

section \<open>tracker\_compare.py: draw\_rect and overlay\_image\<close>

definition draw_rect :: "'p store \<Rightarrow> nat \<Rightarrow> rect \<Rightarrow> color \<Rightarrow> string \<Rightarrow> int \<Rightarrow> 'p store" where
  "draw_rect hp frame_2_draw rect color text index =
     (case rect of (rx, ry, rw, rh) \<Rightarrow>
        let x = py_int rx; y = py_int ry; w = py_int rw; h = py_int rh;
            hp1 = draw_on hp frame_2_draw (Rectangle (x, y) (x + w, y + h) color 2);
            font_thickness = 2;
            dx = [0, 1, 0, 1];
            dy = [0, 0, 1, 1]
        in draw_on hp1 frame_2_draw
             (PutText text (x + (dx ! nat (index mod 4)) * w, y + (dy ! nat (index mod 4)) * h)
                color font_thickness))"

text \<open>
  \<open>background\<close> is an object of the store and is written in place; \<open>foreground\<close> is only
  read (the rebinding \<^verbatim>\<open>foreground = foreground[:h, :w]\<close> makes a view, local to the
  function). The return value is the reference it was given.
\<close>

definition overlay_image ::
  "'p store \<Rightarrow> nat \<Rightarrow> 'p image \<Rightarrow> int \<Rightarrow> int \<Rightarrow> error + ('p store \<times> nat)" where
  "overlay_image hp background foreground x y =
     (let fg_height = int (nrows foreground); fg_width = int (ncols foreground);
          bg_height = int (nrows (pixels (hp ! background)));
          bg_width = int (ncols (pixels (hp ! background)));
          w = min fg_width (bg_width - x);
          h = min fg_height (bg_height - y);
          foreground1 = (if w < fg_width \<or> h < fg_height
                         then np_getitem foreground (None, Some h) (None, Some w)
                         else foreground)
      in case np_setitem (pixels (hp ! background)) (Some y, Some (y + h)) (Some x, Some (x + w))
                (np_getitem foreground1 (None, Some h) (None, Some w)) of
           Inl e \<Rightarrow> Inl e
         | Inr bg \<Rightarrow> Inr (hp[background := (hp ! background)\<lparr>pixels := bg\<rparr>], background))"

section \<open>The world of a script\<close>

text \<open>
  What a script does to the outside is a trace of events, in order. Its inputs are the
  results of the successive \<^verbatim>\<open>video.read()\<close> calls (\<open>None\<close> is a failed read, and every read
  past the end of the list fails) and of the successive \<^verbatim>\<open>cv2.waitKey(1)\<close> calls (\<open>-1\<close>, no
  key, past the end of the list).
\<close>

datatype 'p event =
    Print string
  | Imshow string "'p frame"
  | Sleep
  | DestroyAllWindows
  | SelectROI string
  | DestroyWindow string
  | TrackerInit string
  | TrackerUpdate string
  | WriterOpen string nat "nat \<times> nat"
  | WriterWrite "'p frame"
  | WriterRelease

record 'p world =
  heap :: "'p store"
  keys :: "int list"
  trace :: "'p event list"

definition emit :: "'p event \<Rightarrow> ('p, 'm) world_scheme \<Rightarrow> ('p, 'm) world_scheme" where
  "emit e s = s\<lparr>trace := trace s @ [e]\<rparr>"

definition cv2_waitKey :: "('p, 'm) world_scheme \<Rightarrow> int \<times> ('p, 'm) world_scheme" where
  "cv2_waitKey s = (case keys s of [] \<Rightarrow> (- 1, s) | k # ks \<Rightarrow> (k, s\<lparr>keys := ks\<rparr>))"

definition testfile :: string where
  "testfile = ''nfs/testfile.mp4''"

definition output_file :: string where
  "output_file = ''nfs/output.mp4''"

section \<open>optical\_flow\_demo.py\<close>

text \<open>
  The calls into OpenCV and numpy's random generator are parameters. The corner detector
  returns \<open>None\<close> for Python's \<^verbatim>\<open>None\<close>; the flow estimator may raise, and returns the
  destination points (or \<^verbatim>\<open>None\<close>) and the status array (its third result, \<^verbatim>\<open>err\<close>, is
  never read). \<open>randint k\<close> is the table of the \<open>k\<close>-th call of
  \<^verbatim>\<open>np.random.randint(0, 255, (100, 3))\<close>, by row.
\<close>

type_synonym points = "(rat \<times> rat) list"

record ('p, 'g) flow_api =
  cvtColor :: "'p frame \<Rightarrow> 'g"
  goodFeaturesToTrack :: "'g \<Rightarrow> points option"
  calcOpticalFlowPyrLK :: "'g \<Rightarrow> 'g \<Rightarrow> points option \<Rightarrow> error + (points option \<times> nat list)"
  randint :: "nat \<Rightarrow> nat \<Rightarrow> color"

record ('p, 'g) flow_state = "'p world" +
  prev_gray_frames :: "'g list"
  rand_calls :: nat

definition frames_to_calc :: nat where
  "frames_to_calc = 5"

text \<open>\<^verbatim>\<open>collections.deque(maxlen=...)\<close>: \<open>append\<close> keeps the last \<open>maxlen\<close> items.\<close>

definition deque_append :: "nat \<Rightarrow> 'a list \<Rightarrow> 'a \<Rightarrow> 'a list" where
  "deque_append maxlen d v = drop (length (d @ [v]) - maxlen) (d @ [v])"

definition deque_popleft :: "'a list \<Rightarrow> error + ('a \<times> 'a list)" where
  "deque_popleft d = (case d of [] \<Rightarrow> Inl IndexError | v # rest \<Rightarrow> Inr (v, rest))"

text \<open>
  \<^verbatim>\<open>a[mask]\<close> with a boolean mask over the leading dimensions of \<open>a\<close>: IndexError when
  the shapes differ.
\<close>

definition np_mask_index :: "'a list \<Rightarrow> bool list \<Rightarrow> error + 'a list" where
  "np_mask_index a m =
     (if length m \<noteq> length a then Inl IndexError
      else Inr (map fst (filter snd (zip a m))))"

definition show_good_features :: "'p store \<Rightarrow> nat \<Rightarrow> points option \<Rightarrow> error + 'p store" where
  "show_good_features hp frame_source corners =
     (case corners of
        None \<Rightarrow> Inl TypeError
      | Some cs \<Rightarrow>
          Inr (fold (\<lambda>corner hp1. case corner of (x, y) \<Rightarrow>
                 draw_on hp1 frame_source (Circle (py_int x, py_int y) 5 (0, 0, 255) (- 1)))
               cs hp))"

definition show_lines ::
  "('p, 'g) flow_api \<Rightarrow> ('p, 'g) flow_state \<Rightarrow> nat \<Rightarrow> points \<Rightarrow> points \<Rightarrow> ('p, 'g) flow_state" where
  "show_lines api s frame_source source destination =
     (let random_colors = randint api (rand_calls s)
      in s\<lparr>heap :=
             fold (\<lambda>(i, (dst, src)) hp.
                     case dst of (x_dst, y_dst) \<Rightarrow> case src of (x_src, y_src) \<Rightarrow>
                       let color = random_colors (i mod 100);
                           hp1 = draw_on hp frame_source
                                   (ArrowedLine (py_int x_src, py_int y_src)
                                      (py_int x_dst, py_int y_dst) color 2)
                       in draw_on hp1 frame_source
                            (Circle (py_int x_src, py_int y_src) 10 color (- 1)))
                  (enumerate 0 (zip source destination)) (heap s),
           rand_calls := Suc (rand_calls s)\<rparr>)"

text \<open>Lines 62 to 65: the reference frame of this iteration.\<close>

definition pop_reference :: "'g list \<Rightarrow> error + ('g option \<times> 'g list)" where
  "pop_reference dq =
     (if length dq \<ge> frames_to_calc
      then (case deque_popleft dq of Inl e \<Rightarrow> Inl e | Inr (v, rest) \<Rightarrow> Inr (Some v, rest))
      else Inr (None, dq))"

text \<open>Lines 67 to 75: flow estimation, filtering by status, and the arrows.\<close>

definition track_points ::
  "('p, 'g) flow_api \<Rightarrow> ('p, 'g) flow_state \<Rightarrow> nat \<Rightarrow> 'g \<Rightarrow> 'g option \<Rightarrow> points option
     \<Rightarrow> error + (('p, 'g) flow_state \<times> points option)" where
  "track_points api s output_frame src_gray prev_frame_gray p_src =
     (case prev_frame_gray of
        None \<Rightarrow> Inr (s, p_src)
      | Some prev \<Rightarrow>
          (case calcOpticalFlowPyrLK api src_gray prev p_src of
             Inl e \<Rightarrow> Inl e
           | Inr (p_dst, status) \<Rightarrow>
               (case p_dst of
                  None \<Rightarrow> Inr (s, p_src)
                | Some dst \<Rightarrow>
                    (case np_mask_index dst (map (\<lambda>v. v = 1) status) of
                       Inl e \<Rightarrow> Inl e
                     | Inr p_dst1 \<Rightarrow>
                         (case p_src of
                            None \<Rightarrow> Inl TypeError
                          | Some src \<Rightarrow>
                              (case np_mask_index src (map (\<lambda>v. v = 1) status) of
                                 Inl e \<Rightarrow> Inl e
                               | Inr p_src1 \<Rightarrow>
                                   Inr (show_lines api s output_frame p_src1 p_dst1,
                                        Some p_src1)))))))"

text \<open>
  One iteration of the loop on a frame that was read; the result says whether the loop
  breaks (ESC).
\<close>

definition body_A ::
  "('p, 'g) flow_api \<Rightarrow> 'p frame \<Rightarrow> ('p, 'g) flow_state
     \<Rightarrow> (error \<times> 'p event list) + (('p, 'g) flow_state \<times> bool)" where
  "body_A api frame s =
     (let src_gray = cvtColor api frame;
          p_src = goodFeaturesToTrack api src_gray;
          (hp1, output_frame) = np_copy (heap s) frame
      in case pop_reference (prev_gray_frames s) of
           Inl e \<Rightarrow> Inl (e, trace s)
         | Inr (prev_frame_gray, dq) \<Rightarrow>
             (case track_points api (s\<lparr>heap := hp1, prev_gray_frames := dq\<rparr>) output_frame
                     src_gray prev_frame_gray p_src of
                Inl e \<Rightarrow> Inl (e, trace s)
              | Inr (s1, p_src1) \<Rightarrow>
                  (case show_good_features (heap s1) output_frame p_src1 of
                     Inl e \<Rightarrow> Inl (e, trace s)
                   | Inr hp2 \<Rightarrow>
                       let s2 = emit (Imshow (''Tracking '' @ testfile) (hp2 ! output_frame))
                                  (s1\<lparr>heap := hp2\<rparr>);
                           (key, s3) = cv2_waitKey s2
                       in if key AND 255 = 27 then Inr (s3, True)
                          else Inr (emit Sleep
                                 (s3\<lparr>prev_gray_frames :=
                                       deque_append frames_to_calc (prev_gray_frames s3) src_gray\<rparr>),
                                False))))"

fun loop_A ::
  "('p, 'g) flow_api \<Rightarrow> 'p frame option list \<Rightarrow> ('p, 'g) flow_state
     \<Rightarrow> (error \<times> 'p event list) + ('p, 'g) flow_state" where
  "loop_A api [] s = Inr (emit (Print ''End of video.'') s)"
| "loop_A api (None # video) s = Inr (emit (Print ''End of video.'') s)"
| "loop_A api (Some frame # video) s =
     (case body_A api frame s of
        Inl e \<Rightarrow> Inl e
      | Inr (s1, brk) \<Rightarrow> if brk then Inr s1 else loop_A api video s1)"

text \<open>
  The state before the loop: nothing shown yet, and
  \<^verbatim>\<open>prev_gray_frames = deque(maxlen=frames_to_calc)\<close>, empty.
\<close>

definition flow_init :: "int list \<Rightarrow> ('p, 'g) flow_state" where
  "flow_init ks = \<lparr>heap = [], keys = ks, trace = [], prev_gray_frames = [], rand_calls = 0\<rparr>"

definition optical_flow_demo ::
  "('p, 'g) flow_api \<Rightarrow> 'p frame option list \<Rightarrow> int list
     \<Rightarrow> (error \<times> 'p event list) + ('p, 'g) flow_state" where
  "optical_flow_demo api video ks =
     (case loop_A api video (flow_init ks) of
        Inl e \<Rightarrow> Inl e
      | Inr s \<Rightarrow> Inr (emit (Print ''Tracking ended.'') (emit DestroyAllWindows s)))"

text \<open>
  The state in which the loop stands after its body has run on each of \<open>frames\<close>, with no
  exception and no break; \<open>None\<close> when one of the iterations raises or breaks.
\<close>

fun after_frames_A ::
  "('p, 'g) flow_api \<Rightarrow> 'p frame list \<Rightarrow> ('p, 'g) flow_state \<Rightarrow> ('p, 'g) flow_state option" where
  "after_frames_A api [] s = Some s"
| "after_frames_A api (frame # frames) s =
     (case body_A api frame s of
        Inl e \<Rightarrow> None
      | Inr (s1, brk) \<Rightarrow> if brk then None else after_frames_A api frames s1)"

section \<open>tracker\_compare.py\<close>

text \<open>
  The three trackers are objects of OpenCV with a state of their own, \<open>'t\<close>; \<open>init\<close> and
  \<open>update\<close> return the object's next state.
\<close>

record ('p, 't) tracker_api =
  selectROI :: "'p frame \<Rightarrow> rect"
  TrackerKCF_create :: 't
  TrackerCSRT_create :: 't
  TrackerMIL_create :: 't
  init :: "'t \<Rightarrow> 'p frame \<Rightarrow> rect \<Rightarrow> 't"
  update :: "'t \<Rightarrow> 'p frame \<Rightarrow> 't \<times> bool \<times> rect"

record 't tracker_entry =
  name :: string
  tracker :: 't
  color :: color

text \<open>An entry of \<^verbatim>\<open>bboxes\<close>: the keys \<^verbatim>\<open>'tracker'\<close>, \<^verbatim>\<open>'bbox'\<close> and \<^verbatim>\<open>'color'\<close>.\<close>

record box_entry =
  box_tracker :: string
  box_bbox :: rect
  box_color :: color

record ('p, 't) track_state = "'p world" +
  trackers :: "'t tracker_entry list"

text \<open>Lines 81 to 92: every tracker is updated once; a box is appended on success only.\<close>

fun update_trackers ::
  "('p, 't) tracker_api \<Rightarrow> 'p frame \<Rightarrow> 't tracker_entry list
     \<Rightarrow> 't tracker_entry list \<times> box_entry list \<times> 'p event list" where
  "update_trackers api frame [] = ([], [], [])"
| "update_trackers api frame (tr # rest) =
     (case update api (tracker tr) frame of
        (traker, success, bbox) \<Rightarrow>
          (case update_trackers api frame rest of
             (trs, bboxes, evs) \<Rightarrow>
               (tr\<lparr>tracker := traker\<rparr> # trs,
                (if success
                 then [\<lparr>box_tracker = name tr, box_bbox = bbox, box_color = color tr\<rparr>]
                 else []) @ bboxes,
                TrackerUpdate (name tr) # evs)))"

text \<open>Lines 98 and 99.\<close>

definition draw_boxes :: "'p store \<Rightarrow> nat \<Rightarrow> box_entry list \<Rightarrow> 'p store" where
  "draw_boxes hp output_frame bboxes =
     fold (\<lambda>(i, bbox) hp1.
             draw_rect hp1 output_frame (box_bbox bbox) (box_color bbox) (box_tracker bbox) (int i))
          (enumerate 0 bboxes) hp"

definition body_B ::
  "('p, 't) tracker_api \<Rightarrow> 'p image \<Rightarrow> 'p frame \<Rightarrow> ('p, 't) track_state
     \<Rightarrow> (error \<times> 'p event list) + (('p, 't) track_state \<times> bool)" where
  "body_B api roi_image frame s =
     (case update_trackers api frame (trackers s) of
        (trs, bboxes, evs) \<Rightarrow>
          let s1 = s\<lparr>trace := trace s @ evs, trackers := trs\<rparr>;
              (hp1, output_frame) = np_copy (heap s1) frame
          in (case overlay_image hp1 output_frame roi_image 0 0 of
                Inl e \<Rightarrow> Inl (e, trace s1)
              | Inr (hp2, returned) \<Rightarrow>
                  let hp3 = draw_boxes hp2 output_frame bboxes;
                      s2 = emit (WriterWrite (hp3 ! output_frame))
                             (emit (Imshow (''Tracking '' @ testfile) (hp3 ! output_frame))
                                (s1\<lparr>heap := hp3\<rparr>));
                      (key, s3) = cv2_waitKey s2
                  in if key AND 255 = 27 then Inr (s3, True)
                     else Inr (emit Sleep s3, False)))"

fun loop_B ::
  "('p, 't) tracker_api \<Rightarrow> 'p image \<Rightarrow> 'p frame option list \<Rightarrow> ('p, 't) track_state
     \<Rightarrow> (error \<times> 'p event list) + ('p, 't) track_state" where
  "loop_B api roi_image [] s = Inr (emit (Print ''End of video.'') s)"
| "loop_B api roi_image (None # video) s = Inr (emit (Print ''End of video.'') s)"
| "loop_B api roi_image (Some frame # video) s =
     (case body_B api roi_image frame s of
        Inl e \<Rightarrow> Inl e
      | Inr (s1, brk) \<Rightarrow> if brk then Inr s1 else loop_B api roi_image video s1)"

text \<open>Lines 44 to 72: what the script sets up once the first frame is read.\<close>

definition setup_B ::
  "('p, 't) tracker_api \<Rightarrow> 'p frame \<Rightarrow> int list \<Rightarrow> 'p image \<times> ('p, 't) track_state" where
  "setup_B api frame ks =
     (let roi = selectROI api frame;
          roi_image = (case roi of (r0, r1, r2, r3) \<Rightarrow>
             np_getitem (pixels frame) (Some (py_int r1), Some (py_int (r1 + r3)))
               (Some (py_int r0), Some (py_int (r0 + r2))));
          trackers0 =
            [\<lparr>name = ''KCF'', tracker = TrackerKCF_create api, color = (0, 0, 255)\<rparr>,
             \<lparr>name = ''CSRT'', tracker = TrackerCSRT_create api, color = (255, 0, 0)\<rparr>,
             \<lparr>name = ''MIL'', tracker = TrackerMIL_create api, color = (255, 255, 0)\<rparr>];
          trackers1 = map (\<lambda>tr. tr\<lparr>tracker := init api (tracker tr) frame roi\<rparr>) trackers0;
          fg_height = nrows (pixels frame); fg_width = ncols (pixels frame)
      in (roi_image,
          \<lparr>heap = [], keys = ks,
           trace = [SelectROI ''Tracking'', DestroyWindow ''Tracking'']
                   @ map (\<lambda>tr. TrackerInit (name tr)) trackers0
                   @ [WriterOpen output_file 30 (fg_width, fg_height)],
           trackers = trackers1\<rparr>))"

definition tracker_compare ::
  "('p, 't) tracker_api \<Rightarrow> 'p frame option list \<Rightarrow> int list
     \<Rightarrow> (error \<times> 'p event list) + ('p, 't) track_state" where
  "tracker_compare api video ks =
     (case video of
        Some frame # video1 \<Rightarrow>
          (case setup_B api frame ks of
             (roi_image, s0) \<Rightarrow>
               (case loop_B api roi_image video1 s0 of
                  Inl e \<Rightarrow> Inl e
                | Inr s \<Rightarrow>
                    Inr (emit (Print ''Tracking ended.'')
                           (emit WriterRelease (emit DestroyAllWindows s)))))
      | _ \<Rightarrow> Inl (ValueError ''Could not read video'', []))"


section \<open>Notions used to state the properties\<close>

text \<open>The top-left block of \<open>H\<close> rows and \<open>W\<close> columns of an image.\<close>

definition crop :: "'p image \<Rightarrow> nat \<Rightarrow> nat \<Rightarrow> 'p image" where
  "crop a H W = \<lparr>nrows = H, ncols = W, px = map (take W) (take H (px a))\<rparr>"

text \<open>Concrete inputs: a frame of 4 by 4 samples and a snapshot of 2 by 2.\<close>

definition ex_bg :: "nat frame" where
  "ex_bg = \<lparr>pixels = \<lparr>nrows = 4, ncols = 4,
                        px = [[0, 1, 2, 3], [10, 11, 12, 13], [20, 21, 22, 23], [30, 31, 32, 33]]\<rparr>,
            marks = []\<rparr>"

definition ex_fg :: "nat image" where
  "ex_fg = \<lparr>nrows = 2, ncols = 2, px = [[77, 78], [87, 88]]\<rparr>"

text \<open>What the update loop of lines 83 to 92 computes, tracker by tracker.\<close>

definition updated_trackers ::
  "('p, 't) tracker_api \<Rightarrow> 'p frame \<Rightarrow> 't tracker_entry list \<Rightarrow> 't tracker_entry list" where
  "updated_trackers api frame trs =
     map (\<lambda>tr. tr\<lparr>tracker := fst (update api (tracker tr) frame)\<rparr>) trs"

definition succeeds :: "('p, 't) tracker_api \<Rightarrow> 'p frame \<Rightarrow> 't tracker_entry \<Rightarrow> bool" where
  "succeeds api frame tr = fst (snd (update api (tracker tr) frame))"

definition box_of :: "('p, 't) tracker_api \<Rightarrow> 'p frame \<Rightarrow> 't tracker_entry \<Rightarrow> box_entry" where
  "box_of api frame tr =
     \<lparr>box_tracker = name tr, box_bbox = snd (snd (update api (tracker tr) frame)),
      box_color = color tr\<rparr>"

text \<open>The cycle of corner offsets of C4, and the two primitives draw\_rect draws for a box.\<close>

definition label_offsets :: "(int \<times> int) list" where
  "label_offsets = [(0, 0), (1, 0), (0, 1), (1, 1)]"

definition box_marks :: "rect \<Rightarrow> color \<Rightarrow> string \<Rightarrow> nat \<Rightarrow> draw list" where
  "box_marks rect c t i =
     (case rect of (rx, ry, rw, rh) \<Rightarrow>
        case label_offsets ! (i mod 4) of (dx, dy) \<Rightarrow>
          [Rectangle (py_int rx, py_int ry) (py_int rx + py_int rw, py_int ry + py_int rh) c 2,
           PutText t (py_int rx + dx * py_int rw, py_int ry + dy * py_int rh) c 2])"

definition is_box :: "draw \<Rightarrow> bool" where
  "is_box d = (case d of Rectangle p q c t \<Rightarrow> True | _ \<Rightarrow> False)"

text \<open>
  Three trackers that stand still; the one whose number is \<open>failing\<close> (0 for KCF, 1 for
  CSRT, 2 for MIL, none for a larger number) reports failure on every frame.
\<close>

definition ex_tracker_api :: "nat \<Rightarrow> (nat, nat) tracker_api" where
  "ex_tracker_api failing =
     \<lparr>selectROI = (\<lambda>f. (1, 1, 2, 2)),
      TrackerKCF_create = 0, TrackerCSRT_create = 1, TrackerMIL_create = 2,
      init = (\<lambda>t f r. t),
      update = (\<lambda>t f. (t, t \<noteq> failing, (of_nat t * 10, 20, 5, 6)))\<rparr>"

definition ex_roi_image :: "nat image" where
  "ex_roi_image = fst (setup_B (ex_tracker_api 1) ex_bg [])"

definition ex_track_state :: "nat \<Rightarrow> (nat, nat) track_state" where
  "ex_track_state failing = snd (setup_B (ex_tracker_api failing) ex_bg [])"

text \<open>
  Concrete inputs for optical\_flow\_demo.py: frames of one sample, a grayscale conversion
  that sums the samples, a detector that finds two corners (none in a black frame), and a
  flow estimator that moves every point by (3, 4) and tracks the first point only.
\<close>

definition ex_frame :: "nat \<Rightarrow> nat frame" where
  "ex_frame n = \<lparr>pixels = \<lparr>nrows = 1, ncols = 1, px = [[n]]\<rparr>, marks = []\<rparr>"

definition ex_flow_api :: "(nat, nat) flow_api" where
  "ex_flow_api =
     \<lparr>cvtColor = (\<lambda>f. sum_list (concat (px (pixels f)))),
      goodFeaturesToTrack = (\<lambda>g. if g = 0 then None else Some [(10, 20), (30, 40)]),
      calcOpticalFlowPyrLK = (\<lambda>g prev p. case p of
         None \<Rightarrow> Inl CvError
       | Some q \<Rightarrow> Inr (Some (map (\<lambda>(x, y). (x + 3, y + 4)) q), [1, 0])),
      randint = (\<lambda>k i. (int k, int i, 0))\<rparr>"

text \<open>
  The indices a boolean mask selects, in increasing order, and the mask of lines 72 and
  73, \<^verbatim>\<open>status == 1\<close>.
\<close>

definition selected :: "bool list \<Rightarrow> nat list" where
  "selected m = filter (\<lambda>i. m ! i) [0..<length m]"

definition status_mask :: "nat list \<Rightarrow> bool list" where
  "status_mask status = map (\<lambda>v. v = 1) status"

text \<open>
  What show\_lines draws for the \<open>i\<close>-th pair of a detected point and its flow result, and
  what show\_good\_features draws for a corner.
\<close>

definition int_point :: "rat \<times> rat \<Rightarrow> point" where
  "int_point p = (py_int (fst p), py_int (snd p))"

definition arrow_marks :: "(nat \<Rightarrow> color) \<Rightarrow> nat \<Rightarrow> rat \<times> rat \<Rightarrow> rat \<times> rat \<Rightarrow> draw list" where
  "arrow_marks colors i detected tracked =
     [ArrowedLine (int_point tracked) (int_point detected) (colors (i mod 100)) 2,
      Circle (int_point tracked) 10 (colors (i mod 100)) (- 1)]"

definition corner_mark :: "rat \<times> rat \<Rightarrow> draw" where
  "corner_mark p = Circle (int_point p) 5 (0, 0, 255) (- 1)"

text \<open>
  A state of optical\_flow\_demo.py whose history buffer is full.
\<close>

definition ex_full_state :: "(nat, nat) flow_state" where
  "ex_full_state = (flow_init [])\<lparr>prev_gray_frames := [1, 2, 3, 4, 5]\<rparr>"

section \<open>Slices and slice assignment\<close>

lemma slice_bound_nonneg: "0 \<le> i \<Longrightarrow> i \<le> int n \<Longrightarrow> slice_bound n i = nat i"
  by (auto simp: slice_bound_def)

lemma slice_range_target:
  "slice_range n (Some (int Y), Some (int Y + int H)) = (min Y n, min (Y + H) n)"
  by (simp add: slice_range_def slice_bound_def nat_add_distrib)

lemma np_getitem_crop:
  "H \<le> nrows a \<Longrightarrow> W \<le> ncols a \<Longrightarrow>
   np_getitem a (None, Some (int H)) (None, Some (int W)) = crop a H W"
  by (simp add: np_getitem_def slice_range_def slice_bound_nonneg crop_def)

lemma crop_crop: "crop (crop a H W) H W = crop a H W"
  by (simp add: crop_def take_map)

lemma crop_px:
  "wf_image a \<Longrightarrow> i < H \<Longrightarrow> i < nrows a \<Longrightarrow> j < W \<Longrightarrow>
   px (crop a H W) ! i ! j = px a ! i ! j"
  by (simp add: crop_def wf_image_def)

lemma np_setitem_shape:
  "np_setitem a rs cs v = Inr a' \<Longrightarrow>
   nrows a' = nrows a \<and> ncols a' = ncols a \<and> wf_image a'"
  by (auto simp: np_setitem_def wf_image_def list_all_iff split: prod.splits if_splits)

text \<open>
  When the value has the target's shape, the assignment succeeds and no broadcasting
  takes place.
\<close>

lemma np_setitem_exact:
  assumes "slice_range (nrows a) rs = (r0, r0 + H)" and "slice_range (ncols a) cs = (c0, c0 + W)"
    and "nrows v = H" and "ncols v = W"
  shows "np_setitem a rs cs v =
    Inr (a\<lparr>px := map (\<lambda>r. map (\<lambda>c.
           if r0 \<le> r \<and> r < r0 + H \<and> c0 \<le> c \<and> c < c0 + W
           then px v ! (r - r0) ! (c - c0) else px a ! r ! c) [0..<ncols a]) [0..<nrows a]\<rparr>)"
proof -
  have "\<And>r c. (if r0 \<le> r \<and> r < r0 + H \<and> c0 \<le> c \<and> c < c0 + W
           then px v ! (if H = 1 then 0 else r - r0) ! (if W = 1 then 0 else c - c0)
           else px a ! r ! c) =
         (if r0 \<le> r \<and> r < r0 + H \<and> c0 \<le> c \<and> c < c0 + W
           then px v ! (r - r0) ! (c - c0) else px a ! r ! c)"
    by auto
  then show ?thesis
    using assms by (simp add: np_setitem_def)
qed

section \<open>overlay\_image\<close>

text \<open>
  The value that is assigned, after the conditional truncation and the second slicing,
  is the top-left block of the snapshot.
\<close>

lemma overlay_value:
  assumes "0 \<le> h" "h \<le> int (nrows fg)" "0 \<le> w" "w \<le> int (ncols fg)"
  shows "np_getitem (if w < int (ncols fg) \<or> h < int (nrows fg)
                      then np_getitem fg (None, Some h) (None, Some w) else fg)
            (None, Some h) (None, Some w) = crop fg (nat h) (nat w)"
proof -
  have once: "np_getitem fg (None, Some h) (None, Some w) = crop fg (nat h) (nat w)"
    using np_getitem_crop[of "nat h" fg "nat w"] assms by simp
  have twice: "np_getitem (crop fg (nat h) (nat w)) (None, Some h) (None, Some w)
      = crop fg (nat h) (nat w)"
    using np_getitem_crop[of "nat h" "crop fg (nat h) (nat w)" "nat w"] assms
    by (simp add: crop_crop) (simp add: crop_def)
  show ?thesis using once twice by simp
qed

lemma overlay_image_shape:
  assumes "overlay_image hp b fg x y = Inr (hp', r)" and "b < length hp"
  shows "r = b \<and> length hp' = length hp \<and>
         nrows (pixels (hp' ! b)) = nrows (pixels (hp ! b)) \<and>
         ncols (pixels (hp' ! b)) = ncols (pixels (hp ! b)) \<and>
         wf_image (pixels (hp' ! b)) \<and> marks (hp' ! b) = marks (hp ! b)"
  using assms
  by (auto simp: overlay_image_def Let_def split: sum.splits dest: np_setitem_shape)

lemma overlay_image_inside:
  fixes X Y :: nat
  assumes b: "b < length hp" and X: "X \<le> ncols (pixels (hp ! b))"
    and Y: "Y \<le> nrows (pixels (hp ! b))" and wf: "wf_image fg"
  shows "overlay_image hp b fg (int X) (int Y) =
    Inr (hp[b := (hp ! b)\<lparr>pixels := (pixels (hp ! b))\<lparr>px :=
       map (\<lambda>r. map (\<lambda>c.
          if Y \<le> r \<and> r < Y + min (nrows fg) (nrows (pixels (hp ! b)) - Y) \<and>
             X \<le> c \<and> c < X + min (ncols fg) (ncols (pixels (hp ! b)) - X)
          then px fg ! (r - Y) ! (c - X) else px (pixels (hp ! b)) ! r ! c)
          [0..<ncols (pixels (hp ! b))]) [0..<nrows (pixels (hp ! b))]\<rparr>\<rparr>], b)"
proof -
  let ?bg = "pixels (hp ! b)"
  let ?W = "min (ncols fg) (ncols ?bg - X)"
  let ?H = "min (nrows fg) (nrows ?bg - Y)"
  have w: "min (int (ncols fg)) (int (ncols ?bg) - int X) = int ?W"
    using X by auto
  have h: "min (int (nrows fg)) (int (nrows ?bg) - int Y) = int ?H"
    using Y by auto
  have v: "np_getitem (if int ?W < int (ncols fg) \<or> int ?H < int (nrows fg)
                      then np_getitem fg (None, Some (int ?H)) (None, Some (int ?W)) else fg)
            (None, Some (int ?H)) (None, Some (int ?W)) = crop fg ?H ?W"
    using overlay_value[where h = "int ?H" and w = "int ?W" and fg = fg] by simp
  have rr: "slice_range (nrows ?bg) (Some (int Y), Some (int Y + int ?H)) = (Y, Y + ?H)"
    using Y by (simp add: slice_range_target)
  have cc: "slice_range (ncols ?bg) (Some (int X), Some (int X + int ?W)) = (X, X + ?W)"
    using X by (simp add: slice_range_target)
  have pix: "\<And>r c. Y \<le> r \<Longrightarrow> r < Y + ?H \<Longrightarrow> X \<le> c \<Longrightarrow> c < X + ?W \<Longrightarrow>
     px (crop fg ?H ?W) ! (r - Y) ! (c - X) = px fg ! (r - Y) ! (c - X)"
    using wf by (intro crop_px) auto
  have set: "np_setitem ?bg (Some (int Y), Some (int Y + int ?H))
          (Some (int X), Some (int X + int ?W)) (crop fg ?H ?W) =
     Inr (?bg\<lparr>px := map (\<lambda>r. map (\<lambda>c.
           if Y \<le> r \<and> r < Y + ?H \<and> X \<le> c \<and> c < X + ?W
           then px (crop fg ?H ?W) ! (r - Y) ! (c - X) else px ?bg ! r ! c)
           [0..<ncols ?bg]) [0..<nrows ?bg]\<rparr>)"
    by (rule np_setitem_exact[OF rr cc]) (simp_all add: crop_def)
  have eq: "map (\<lambda>r. map (\<lambda>c.
           if Y \<le> r \<and> r < Y + ?H \<and> X \<le> c \<and> c < X + ?W
           then px (crop fg ?H ?W) ! (r - Y) ! (c - X) else px ?bg ! r ! c)
           [0..<ncols ?bg]) [0..<nrows ?bg]
      = map (\<lambda>r. map (\<lambda>c.
           if Y \<le> r \<and> r < Y + ?H \<and> X \<le> c \<and> c < X + ?W
           then px fg ! (r - Y) ! (c - X) else px ?bg ! r ! c)
           [0..<ncols ?bg]) [0..<nrows ?bg]"
    by (intro map_cong refl) (simp add: pix)
  show ?thesis
    unfolding overlay_image_def Let_def w h v set eq by simp
qed

text \<open>
  C3, as amended. For every offset, a call that returns leaves the background with its
  shape: every pixel it holds afterwards lies inside the bounds it had. For an offset
  inside the background (\<open>0 \<le> x \<le> width\<close>, \<open>0 \<le> y \<le> height\<close>) the call returns, the
  snapshot is truncated to the \<open>min fg_height (bg_height - y)\<close> rows and
  \<open>min fg_width (bg_width - x)\<close> columns that fit, that block is copied at \<open>(x, y)\<close>,
  and every other pixel keeps its value.
\<close>

theorem overlay_image_clips:
  fixes X Y :: nat
  assumes "b < length hp" and "wf_image fg"
  shows "(\<forall>x y hp' r. overlay_image hp b fg x y = Inr (hp', r) \<longrightarrow>
            nrows (pixels (hp' ! b)) = nrows (pixels (hp ! b)) \<and>
            ncols (pixels (hp' ! b)) = ncols (pixels (hp ! b)) \<and>
            wf_image (pixels (hp' ! b))) \<and>
         (X \<le> ncols (pixels (hp ! b)) \<and> Y \<le> nrows (pixels (hp ! b)) \<longrightarrow>
            (\<exists>hp'. overlay_image hp b fg (int X) (int Y) = Inr (hp', b) \<and>
               (\<forall>r c. r < nrows (pixels (hp ! b)) \<and> c < ncols (pixels (hp ! b)) \<longrightarrow>
                  px (pixels (hp' ! b)) ! r ! c =
                    (if Y \<le> r \<and> r < Y + min (nrows fg) (nrows (pixels (hp ! b)) - Y) \<and>
                        X \<le> c \<and> c < X + min (ncols fg) (ncols (pixels (hp ! b)) - X)
                     then px fg ! (r - Y) ! (c - X)
                     else px (pixels (hp ! b)) ! r ! c))))"
proof (intro conjI allI impI)
  fix x y hp' r
  assume "overlay_image hp b fg x y = Inr (hp', r)"
  from overlay_image_shape[OF this assms(1)]
  show "nrows (pixels (hp' ! b)) = nrows (pixels (hp ! b))"
    and "ncols (pixels (hp' ! b)) = ncols (pixels (hp ! b))"
    and "wf_image (pixels (hp' ! b))"
    by simp_all
next
  assume in_range: "X \<le> ncols (pixels (hp ! b)) \<and> Y \<le> nrows (pixels (hp ! b))"
  show "\<exists>hp'. overlay_image hp b fg (int X) (int Y) = Inr (hp', b) \<and>
               (\<forall>r c. r < nrows (pixels (hp ! b)) \<and> c < ncols (pixels (hp ! b)) \<longrightarrow>
                  px (pixels (hp' ! b)) ! r ! c =
                    (if Y \<le> r \<and> r < Y + min (nrows fg) (nrows (pixels (hp ! b)) - Y) \<and>
                        X \<le> c \<and> c < X + min (ncols fg) (ncols (pixels (hp ! b)) - X)
                     then px fg ! (r - Y) ! (c - X)
                     else px (pixels (hp ! b)) ! r ! c))"
    using overlay_image_inside[OF assms(1) _ _ assms(2), of X Y] in_range assms(1)
    by simp
qed

theorem overlay_image_clips_witness:
  "(0::nat) < length [ex_bg] \<and> wf_image ex_fg \<and>
   (3::nat) \<le> ncols (pixels ([ex_bg] ! 0)) \<and> (3::nat) \<le> nrows (pixels ([ex_bg] ! 0)) \<and>
   (\<exists>hp'. overlay_image [ex_bg] 0 ex_fg 3 3 = Inr (hp', 0) \<and>
      px (pixels (hp' ! 0)) ! 3 ! 3 = 77 \<and> px (pixels (hp' ! 0)) ! 2 ! 3 = 23 \<and>
      nrows (pixels (hp' ! 0)) = 4 \<and> ncols (pixels (hp' ! 0)) = 4)"
proof -
  have b: "(0::nat) < length [ex_bg]" by simp
  have wf: "wf_image ex_fg" by (simp add: wf_image_def ex_fg_def)
  have r: "(3::nat) \<le> ncols (pixels ([ex_bg] ! 0)) \<and> (3::nat) \<le> nrows (pixels ([ex_bg] ! 0))"
    by (simp add: ex_bg_def)
  from overlay_image_clips[OF b wf, of 3 3] r
  obtain hp' where ov: "overlay_image [ex_bg] 0 ex_fg (int 3) (int 3) = Inr (hp', 0)"
    and pix: "\<And>r c. r < nrows (pixels ([ex_bg] ! 0)) \<and> c < ncols (pixels ([ex_bg] ! 0)) \<Longrightarrow>
       px (pixels (hp' ! 0)) ! r ! c =
         (if 3 \<le> r \<and> r < 3 + min (nrows ex_fg) (nrows (pixels ([ex_bg] ! 0)) - 3) \<and>
             3 \<le> c \<and> c < 3 + min (ncols ex_fg) (ncols (pixels ([ex_bg] ! 0)) - 3)
          then px ex_fg ! (r - 3) ! (c - 3) else px (pixels ([ex_bg] ! 0)) ! r ! c)"
    and shape: "nrows (pixels (hp' ! 0)) = nrows (pixels ([ex_bg] ! 0)) \<and>
                ncols (pixels (hp' ! 0)) = ncols (pixels ([ex_bg] ! 0))"
    by blast
  have "px (pixels (hp' ! 0)) ! 3 ! 3 = 77"
    using pix[of 3 3] by (simp add: ex_bg_def ex_fg_def)
  moreover have "px (pixels (hp' ! 0)) ! 2 ! 3 = 23"
    using pix[of 2 3] by (simp add: ex_bg_def ex_fg_def)
  moreover have "nrows (pixels (hp' ! 0)) = 4 \<and> ncols (pixels (hp' ! 0)) = 4"
    using shape by (simp add: ex_bg_def)
  ultimately show ?thesis
    using b wf r ov by auto
qed

text \<open>
  C3 as stated fails for an offset outside the background. Placed at \<open>x = -1\<close>, the
  snapshot exceeds the bounds on the left and its right column fits; the call raises
  instead of copying that column.
\<close>

theorem overlay_image_negative_offset_raises:
  "overlay_image [ex_bg] 0 ex_fg (- 1) 0 = Inl (ValueError ''could not broadcast input array'')"
  by (simp add: overlay_image_def ex_bg_def ex_fg_def np_getitem_def np_setitem_def
      slice_range_def slice_bound_def)

section \<open>The per-frame body of tracker\_compare.py\<close>

lemma update_trackers_eq:
  "update_trackers api frame trs =
     (updated_trackers api frame trs,
      map (box_of api frame) (filter (succeeds api frame) trs),
      map (\<lambda>tr. TrackerUpdate (name tr)) trs)"
  by (induction trs)
     (auto simp: updated_trackers_def succeeds_def box_of_def split: prod.splits)

lemma draw_on_twice:
  "r < length hp \<Longrightarrow>
   draw_on (draw_on hp r d1) r d2 = hp[r := (hp ! r)\<lparr>marks := marks (hp ! r) @ [d1, d2]\<rparr>]"
  by (simp add: draw_on_def)

lemma label_offsets_nth:
  "label_offsets ! (i mod 4) = ([0, 1, 0, 1] ! (i mod 4), [0, 0, 1, 1] ! (i mod 4))"
proof -
  have "i mod 4 < 4" by simp
  then consider "i mod 4 = 0" | "i mod 4 = 1" | "i mod 4 = 2" | "i mod 4 = 3" by linarith
  then show ?thesis by cases (simp_all add: label_offsets_def)
qed

lemma draw_rect_marks:
  assumes "r < length hp"
  shows "draw_rect hp r rect c t (int i) = hp[r := (hp ! r)\<lparr>marks := marks (hp ! r) @ box_marks rect c t i\<rparr>]"
proof -
  have m: "nat (int i mod 4) = i mod 4"
    by (simp add: nat_mod_distrib)
  show ?thesis
    using assms
    by (cases rect) (simp add: draw_rect_def box_marks_def Let_def draw_on_twice m label_offsets_nth)
qed

lemma fold_draw_rect:
  assumes "r < length hp"
  shows "fold (\<lambda>(i, bbox) hp1.
             draw_rect hp1 r (box_bbox bbox) (box_color bbox) (box_tracker bbox) (int i))
          (enumerate n bboxes) hp
        = hp[r := (hp ! r)\<lparr>marks := marks (hp ! r) @
             concat (map (\<lambda>(i, bbox). box_marks (box_bbox bbox) (box_color bbox) (box_tracker bbox) i)
                      (enumerate n bboxes))\<rparr>]"
  using assms
proof (induction bboxes arbitrary: n hp)
  case Nil
  then show ?case by (simp add: list_update_same_conv)
next
  case (Cons b bs)
  then show ?case
    by (simp add: draw_rect_marks)
qed

lemma draw_boxes_marks:
  "r < length hp \<Longrightarrow>
   draw_boxes hp r bboxes = hp[r := (hp ! r)\<lparr>marks := marks (hp ! r) @
      concat (map (\<lambda>(i, bbox). box_marks (box_bbox bbox) (box_color bbox) (box_tracker bbox) i)
                      (enumerate 0 bboxes))\<rparr>]"
  unfolding draw_boxes_def by (rule fold_draw_rect)

lemma body_B_eq:
  "body_B api roi frame s =
    (case overlay_image (heap s @ [frame]) (length (heap s)) roi 0 0 of
       Inl e \<Rightarrow> Inl (e, trace s @ map (\<lambda>tr. TrackerUpdate (name tr)) (trackers s))
     | Inr (hp2, r) \<Rightarrow>
        (let hp3 = draw_boxes hp2 (length (heap s))
                     (map (box_of api frame) (filter (succeeds api frame) (trackers s)));
             shown = hp3 ! length (heap s);
             esc = ((case keys s of [] \<Rightarrow> - 1 | k # ks \<Rightarrow> k) AND 255 = 27)
         in Inr (s\<lparr>heap := hp3, keys := tl (keys s),
                   trace := trace s @ map (\<lambda>tr. TrackerUpdate (name tr)) (trackers s)
                            @ [Imshow (''Tracking '' @ testfile) shown, WriterWrite shown]
                            @ (if esc then [] else [Sleep]),
                   trackers := updated_trackers api frame (trackers s)\<rparr>, esc)))"
  by (auto simp: body_B_def update_trackers_eq np_copy_def cv2_waitKey_def emit_def Let_def
      split: sum.splits list.splits prod.splits)

lemma ex_roi_image_eq: "ex_roi_image = \<lparr>nrows = 2, ncols = 2, px = [[11, 12], [21, 22]]\<rparr>"
  by code_simp

lemma ex_track_state_eq:
  "ex_track_state failing =
     \<lparr>heap = [], keys = [],
      trace = [SelectROI ''Tracking'', DestroyWindow ''Tracking'', TrackerInit ''KCF'',
               TrackerInit ''CSRT'', TrackerInit ''MIL'', WriterOpen ''nfs/output.mp4'' 30 (4, 4)],
      trackers = [\<lparr>name = ''KCF'', tracker = 0, color = (0, 0, 255)\<rparr>,
                  \<lparr>name = ''CSRT'', tracker = 1, color = (255, 0, 0)\<rparr>,
                  \<lparr>name = ''MIL'', tracker = 2, color = (255, 255, 0)\<rparr>]\<rparr>"
  by (simp add: ex_track_state_def setup_B_def ex_tracker_api_def ex_bg_def Let_def output_file_def)

lemma overlay_image_origin:
  assumes "wf_image roi"
  shows "\<exists>hp2. overlay_image (hp @ [frame]) (length hp) roi 0 0 = Inr (hp2, length hp)"
  using overlay_image_inside[of "length hp" "hp @ [frame]" 0 0 roi] assms by simp

lemma body_B_returns:
  assumes "wf_image roi"
  shows "\<exists>s' brk. body_B api roi frame s = Inr (s', brk)"
proof -
  obtain hp2 where "overlay_image (heap s @ [frame]) (length (heap s)) roi 0 0 = Inr (hp2, length (heap s))"
    using overlay_image_origin[OF assms] by blast
  then show ?thesis
    by (simp add: body_B_eq Let_def)
qed

lemma body_B_shown:
  assumes "body_B api roi frame s = Inr (s', brk)"
  shows "\<exists>hp2. overlay_image (heap s @ [frame]) (length (heap s)) roi 0 0 = Inr (hp2, length (heap s)) \<and>
          heap s' = draw_boxes hp2 (length (heap s))
                      (map (box_of api frame) (filter (succeeds api frame) (trackers s))) \<and>
          length hp2 = Suc (length (heap s)) \<and>
          marks (hp2 ! length (heap s)) = marks frame"
proof -
  obtain hp2 r where ov: "overlay_image (heap s @ [frame]) (length (heap s)) roi 0 0 = Inr (hp2, r)"
    using assms by (auto simp: body_B_eq split: sum.splits)
  have sh: "r = length (heap s) \<and> length hp2 = length (heap s @ [frame]) \<and>
        marks (hp2 ! length (heap s)) = marks ((heap s @ [frame]) ! length (heap s))"
    using overlay_image_shape[OF ov] by simp
  show ?thesis
    using assms ov sh by (auto simp: body_B_eq Let_def)
qed

lemma body_B_marks:
  assumes "body_B api roi frame s = Inr (s', brk)"
  shows "marks (heap s' ! length (heap s)) = marks frame @
           concat (map (\<lambda>(i, bbox). box_marks (box_bbox bbox) (box_color bbox) (box_tracker bbox) i)
             (enumerate 0 (map (box_of api frame) (filter (succeeds api frame) (trackers s)))))"
proof -
  from body_B_shown[OF assms] obtain hp2 where
    h: "heap s' = draw_boxes hp2 (length (heap s))
                      (map (box_of api frame) (filter (succeeds api frame) (trackers s)))"
    and l: "length hp2 = Suc (length (heap s))" and m: "marks (hp2 ! length (heap s)) = marks frame"
    by blast
  show ?thesis
    unfolding h using l m by (simp add: draw_boxes_marks)
qed

lemma body_B_trace:
  assumes "body_B api roi frame s = Inr (s', brk)"
  shows "trace s' = trace s @ map (\<lambda>tr. TrackerUpdate (name tr)) (trackers s)
           @ [Imshow (''Tracking '' @ testfile) (heap s' ! length (heap s)),
              WriterWrite (heap s' ! length (heap s))]
           @ (if brk then [] else [Sleep])"
  using assms by (auto simp: body_B_eq Let_def split: sum.splits)

lemma count_boxes:
  "length (filter is_box (concat (map (\<lambda>(i, bbox). box_marks (box_bbox bbox) (box_color bbox) (box_tracker bbox) i)
             (enumerate n bs)))) = length bs"
  by (induction bs arbitrary: n) (auto simp: box_marks_def is_box_def split: prod.splits)

section \<open>The first read, and the store\<close>

text \<open>
  C9. When the first read fails (the stream is empty, or its first read reports failure),
  the script raises ValueError "Could not read video" with an empty trace of effects: no
  ROI selection, no tracker initialisation and no output file before it. These are the
  effects that come first, in this order, once the first read has succeeded.
\<close>

theorem initial_read_failure_aborts:
  "tracker_compare api [] ks = Inl (ValueError ''Could not read video'', []) \<and>
   tracker_compare api (None # video) ks = Inl (ValueError ''Could not read video'', []) \<and>
   trace (snd (setup_B api frame ks)) =
     [SelectROI ''Tracking'', DestroyWindow ''Tracking'', TrackerInit ''KCF'', TrackerInit ''CSRT'',
      TrackerInit ''MIL'', WriterOpen output_file 30 (ncols (pixels frame), nrows (pixels frame))]"
  by (simp add: tracker_compare_def setup_B_def Let_def)




lemma ex_wf_roi: "wf_image ex_roi_image"
  by (simp add: ex_roi_image_eq wf_image_def)


section \<open>Boxes and labels\<close>

lemma body_B_isl:
  "isl (body_B api roi frame s) = isl (overlay_image (heap s @ [frame]) (length (heap s)) roi 0 0)"
  by (simp add: body_B_eq Let_def split: sum.splits prod.splits)

text \<open>
  C5. In an iteration of the loop that completes, the frame shown and written carries,
  after what the frame read carried, exactly the rectangle and the label of each tracker
  whose update succeeded, in the order of the trackers: a tracker that fails contributes
  nothing. Every tracker is updated once (no retry), nothing is printed, and whether the
  iteration raises does not depend on the trackers. With three trackers of which the
  second fails, the boxes are those of the first and the third.
\<close>

theorem failed_tracker_draws_no_box:
  assumes "body_B api roi frame s = Inr (s', brk)"
  shows "marks (heap s' ! length (heap s)) = marks frame @
           concat (map (\<lambda>(i, bbox). box_marks (box_bbox bbox) (box_color bbox) (box_tracker bbox) i)
             (enumerate 0 (map (box_of api frame) (filter (succeeds api frame) (trackers s))))) \<and>
         length (filter is_box (marks (heap s' ! length (heap s)))) =
           length (filter is_box (marks frame)) + length (filter (succeeds api frame) (trackers s)) \<and>
         trace s' = trace s @ map (\<lambda>tr. TrackerUpdate (name tr)) (trackers s)
           @ [Imshow (''Tracking '' @ testfile) (heap s' ! length (heap s)),
              WriterWrite (heap s' ! length (heap s))]
           @ (if brk then [] else [Sleep]) \<and>
         isl (body_B api roi frame s) =
           isl (overlay_image (heap s @ [frame]) (length (heap s)) roi 0 0) \<and>
         (trackers s = [t1, t2, t3] \<and> succeeds api frame t1 \<and> \<not> succeeds api frame t2 \<and>
          succeeds api frame t3 \<longrightarrow>
            marks (heap s' ! length (heap s)) = marks frame
              @ box_marks (snd (snd (update api (tracker t1) frame))) (color t1) (name t1) 0
              @ box_marks (snd (snd (update api (tracker t3) frame))) (color t3) (name t3) 1)"
proof -
  note m = body_B_marks[OF assms]
  have c: "length (filter is_box (marks (heap s' ! length (heap s)))) =
           length (filter is_box (marks frame)) + length (filter (succeeds api frame) (trackers s))"
    unfolding m by (simp add: count_boxes)
  have three: "trackers s = [t1, t2, t3] \<and> succeeds api frame t1 \<and> \<not> succeeds api frame t2 \<and>
          succeeds api frame t3 \<longrightarrow>
            marks (heap s' ! length (heap s)) = marks frame
              @ box_marks (snd (snd (update api (tracker t1) frame))) (color t1) (name t1) 0
              @ box_marks (snd (snd (update api (tracker t3) frame))) (color t3) (name t3) 1"
    unfolding m by (simp add: box_of_def)
  show ?thesis
    using m c three body_B_trace[OF assms] body_B_isl by blast
qed

theorem failed_tracker_draws_no_box_witness:
  "\<exists>s' brk. body_B (ex_tracker_api 1) ex_roi_image ex_bg (ex_track_state 1) = Inr (s', brk) \<and>
     trackers (ex_track_state 1) =
       [\<lparr>name = ''KCF'', tracker = 0, color = (0, 0, 255)\<rparr>,
        \<lparr>name = ''CSRT'', tracker = 1, color = (255, 0, 0)\<rparr>,
        \<lparr>name = ''MIL'', tracker = 2, color = (255, 255, 0)\<rparr>] \<and>
     \<not> succeeds (ex_tracker_api 1) ex_bg \<lparr>name = ''CSRT'', tracker = 1, color = (255, 0, 0)\<rparr> \<and>
     marks (heap s' ! 0) =
       [Rectangle (0, 20) (5, 26) (0, 0, 255) 2, PutText ''KCF'' (0, 20) (0, 0, 255) 2,
        Rectangle (20, 20) (25, 26) (255, 255, 0) 2, PutText ''MIL'' (25, 20) (255, 255, 0) 2] \<and>
     length (filter is_box (marks (heap s' ! 0))) = 2"
proof -
  obtain s' brk where b: "body_B (ex_tracker_api 1) ex_roi_image ex_bg (ex_track_state 1) = Inr (s', brk)"
    using body_B_returns[OF ex_wf_roi] by blast
  have t: "trackers (ex_track_state 1) =
       [\<lparr>name = ''KCF'', tracker = 0, color = (0, 0, 255)\<rparr>,
        \<lparr>name = ''CSRT'', tracker = 1, color = (255, 0, 0)\<rparr>,
        \<lparr>name = ''MIL'', tracker = 2, color = (255, 255, 0)\<rparr>]"
    by (simp add: ex_track_state_eq)
  have h0: "length (heap (ex_track_state 1)) = 0"
    by (simp add: ex_track_state_eq)
  have s: "succeeds (ex_tracker_api 1) ex_bg \<lparr>name = ''KCF'', tracker = 0, color = (0, 0, 255)\<rparr>"
    "\<not> succeeds (ex_tracker_api 1) ex_bg \<lparr>name = ''CSRT'', tracker = 1, color = (255, 0, 0)\<rparr>"
    "succeeds (ex_tracker_api 1) ex_bg \<lparr>name = ''MIL'', tracker = 2, color = (255, 255, 0)\<rparr>"
    by (simp_all add: succeeds_def ex_tracker_api_def)
  have bm: "box_marks (0, 20, 5, 6) (0, 0, 255) ''KCF'' 0 =
       [Rectangle (0, 20) (5, 26) (0, 0, 255) 2, PutText ''KCF'' (0, 20) (0, 0, 255) 2]"
    "box_marks (20, 20, 5, 6) (255, 255, 0) ''MIL'' (Suc 0) =
       [Rectangle (20, 20) (25, 26) (255, 255, 0) 2, PutText ''MIL'' (25, 20) (255, 255, 0) 2]"
    by (simp_all add: box_marks_def label_offsets_def py_int_def)
  from failed_tracker_draws_no_box[OF b,
      of "\<lparr>name = ''KCF'', tracker = 0, color = (0, 0, 255)\<rparr>"
         "\<lparr>name = ''CSRT'', tracker = 1, color = (255, 0, 0)\<rparr>"
         "\<lparr>name = ''MIL'', tracker = 2, color = (255, 255, 0)\<rparr>"] t s
  have "marks (heap s' ! length (heap (ex_track_state 1))) = marks ex_bg
     @ box_marks (snd (snd (update (ex_tracker_api 1) 0 ex_bg))) (0, 0, 255) ''KCF'' 0
     @ box_marks (snd (snd (update (ex_tracker_api 1) 2 ex_bg))) (255, 255, 0) ''MIL'' 1"
    by (simp add: box_of_def)
  then have mk: "marks (heap s' ! 0) =
       [Rectangle (0, 20) (5, 26) (0, 0, 255) 2, PutText ''KCF'' (0, 20) (0, 0, 255) 2,
        Rectangle (20, 20) (25, 26) (255, 255, 0) 2, PutText ''MIL'' (25, 20) (255, 255, 0) 2]"
    unfolding h0 by (simp add: ex_tracker_api_def bm) (simp add: ex_bg_def)
  have "length (filter is_box (marks (heap s' ! 0))) = 2"
    unfolding mk by (simp add: is_box_def)
  then show ?thesis
    using b t s mk by blast
qed







section \<open>The history buffer and the end of the stream\<close>

lemma pop_reference_eq:
  "pop_reference dq =
     Inr (if frames_to_calc \<le> length dq then (Some (hd dq), tl dq) else (None, dq))"
  by (cases dq) (simp_all add: pop_reference_def deque_popleft_def frames_to_calc_def)

lemma show_lines_fields:
  "prev_gray_frames (show_lines api s r src dst) = prev_gray_frames s \<and>
   trace (show_lines api s r src dst) = trace s \<and>
   keys (show_lines api s r src dst) = keys s"
  by (simp add: show_lines_def Let_def)

lemma track_points_fields:
  assumes "track_points api s r g prev p = Inr (s1, p1)"
  shows "prev_gray_frames s1 = prev_gray_frames s \<and> trace s1 = trace s \<and> keys s1 = keys s"
  using assms
  by (auto simp: track_points_def show_lines_fields split: option.splits sum.splits prod.splits)

lemma body_A_fields:
  assumes "body_A api frame s = Inr (s', brk)"
  shows "brk = ((case keys s of [] \<Rightarrow> - 1 | k # ks \<Rightarrow> k) AND 255 = 27) \<and>
         keys s' = tl (keys s) \<and>
         prev_gray_frames s' =
           (if brk then snd (if frames_to_calc \<le> length (prev_gray_frames s)
                             then (Some (hd (prev_gray_frames s)), tl (prev_gray_frames s))
                             else (None, prev_gray_frames s))
            else deque_append frames_to_calc
                   (snd (if frames_to_calc \<le> length (prev_gray_frames s)
                         then (Some (hd (prev_gray_frames s)), tl (prev_gray_frames s))
                         else (None, prev_gray_frames s)))
                   (cvtColor api frame)) \<and>
         (\<exists>shown. trace s' = trace s @ [Imshow (''Tracking '' @ testfile) shown]
                      @ (if brk then [] else [Sleep]))"
  using assms
  apply (simp add: body_A_def pop_reference_eq np_copy_def Let_def cv2_waitKey_def emit_def
      split: sum.splits prod.splits)
  apply (auto simp: emit_def dest!: track_points_fields split: list.splits if_splits)
  done

lemma drop_last_append:
  "drop (length (drop (length A - n) A @ M) - n) (drop (length A - n) A @ M)
     = drop (length (A @ M) - n) (A @ M)"
proof (cases "n \<le> length A")
  case True
  then have "drop (length A - n) A @ M = drop (length A - n) (A @ M)" by simp
  then show ?thesis using True by (simp del: drop_append add: add.commute)
next
  case False
  then show ?thesis by simp
qed

lemma body_A_history:
  assumes b: "body_A api frame s = Inr (s', False)"
    and le: "length (prev_gray_frames s) \<le> frames_to_calc"
  shows "prev_gray_frames s' =
           drop (length (prev_gray_frames s @ [cvtColor api frame]) - frames_to_calc)
             (prev_gray_frames s @ [cvtColor api frame])"
proof (cases "frames_to_calc \<le> length (prev_gray_frames s)")
  case True
  then have l: "length (prev_gray_frames s) = frames_to_calc" using le by simp
  then have ne: "prev_gray_frames s \<noteq> []" by (auto simp: frames_to_calc_def)
  have "prev_gray_frames s' = deque_append frames_to_calc (tl (prev_gray_frames s)) (cvtColor api frame)"
    using body_A_fields[OF b] True by simp
  also have "\<dots> = tl (prev_gray_frames s) @ [cvtColor api frame]"
    using l by (simp add: deque_append_def frames_to_calc_def)
  also have "\<dots> = drop 1 (prev_gray_frames s @ [cvtColor api frame])"
    using ne by (cases "prev_gray_frames s") simp_all
  finally show ?thesis using l by simp
next
  case False
  then show ?thesis
    using body_A_fields[OF b] by (simp add: deque_append_def)
qed

lemma after_frames_A_history:
  assumes "after_frames_A api frames s0 = Some s"
    and "length (prev_gray_frames s0) \<le> frames_to_calc"
  shows "prev_gray_frames s =
           drop (length (prev_gray_frames s0 @ map (cvtColor api) frames) - frames_to_calc)
             (prev_gray_frames s0 @ map (cvtColor api) frames)"
  using assms
proof (induction frames arbitrary: s0)
  case Nil
  then show ?case by simp
next
  case (Cons f fs)
  from Cons.prems(1) obtain s1 where b: "body_A api f s0 = Inr (s1, False)"
    and a: "after_frames_A api fs s1 = Some s"
    by (auto split: sum.splits if_splits)
  have h1: "prev_gray_frames s1 =
           drop (length (prev_gray_frames s0 @ [cvtColor api f]) - frames_to_calc)
             (prev_gray_frames s0 @ [cvtColor api f])"
    by (rule body_A_history[OF b Cons.prems(2)])
  then have "length (prev_gray_frames s1) \<le> frames_to_calc" by simp
  from Cons.IH[OF a this] show ?case
    unfolding h1 using drop_last_append[of "prev_gray_frames s0 @ [cvtColor api f]" frames_to_calc
        "map (cvtColor api) fs"]
    by simp
qed

text \<open>
  C1. After any number of completed iterations, started with the empty buffer, the
  history buffer holds the grayscale versions of the last frames, at most
  \<open>frames_to_calc = 5\<close> of them; it stays within that bound after the pop and after the
  append of the next iteration. After exactly 5 iterations, the next iteration pops the
  grayscale version of frame 1 as the reference; in general, after \<open>n \<ge> 5\<close> iterations it
  pops that of the frame 5 iterations back.
\<close>

theorem history_buffer_bounded:
  assumes "after_frames_A api frames s0 = Some s" and "prev_gray_frames s0 = []"
  shows "length (prev_gray_frames s) \<le> frames_to_calc \<and>
         prev_gray_frames s = drop (length frames - frames_to_calc) (map (cvtColor api) frames) \<and>
         (\<exists>ref dq. pop_reference (prev_gray_frames s) = Inr (ref, dq) \<and>
            length dq \<le> frames_to_calc \<and>
            length (deque_append frames_to_calc dq g) \<le> frames_to_calc) \<and>
         (length frames = frames_to_calc \<longrightarrow>
            pop_reference (prev_gray_frames s) =
              Inr (Some (cvtColor api (frames ! 0)), map (cvtColor api) (tl frames))) \<and>
         (frames_to_calc \<le> length frames \<longrightarrow>
            pop_reference (prev_gray_frames s) =
              Inr (Some (cvtColor api (frames ! (length frames - frames_to_calc))),
                   drop (Suc (length frames - frames_to_calc)) (map (cvtColor api) frames)))"
proof -
  have h: "prev_gray_frames s = drop (length frames - frames_to_calc) (map (cvtColor api) frames)"
    using after_frames_A_history[OF assms(1)] assms(2) by simp
  then have le: "length (prev_gray_frames s) \<le> frames_to_calc" by simp
  have pop: "\<exists>ref dq. pop_reference (prev_gray_frames s) = Inr (ref, dq) \<and>
            length dq \<le> frames_to_calc \<and>
            length (deque_append frames_to_calc dq g) \<le> frames_to_calc"
    using le by (auto simp: pop_reference_eq deque_append_def frames_to_calc_def)
  have gen: "frames_to_calc \<le> length frames \<longrightarrow>
            pop_reference (prev_gray_frames s) =
              Inr (Some (cvtColor api (frames ! (length frames - frames_to_calc))),
                   drop (Suc (length frames - frames_to_calc)) (map (cvtColor api) frames))"
  proof
    assume a: "frames_to_calc \<le> length frames"
    then have lt: "length frames - frames_to_calc < length frames"
      by (simp add: frames_to_calc_def)
    have "prev_gray_frames s = cvtColor api (frames ! (length frames - frames_to_calc))
            # drop (Suc (length frames - frames_to_calc)) (map (cvtColor api) frames)"
      unfolding h using lt by (metis Cons_nth_drop_Suc length_map nth_map)
    moreover have "frames_to_calc \<le> length (prev_gray_frames s)"
      unfolding h using a by simp
    ultimately show "pop_reference (prev_gray_frames s) =
              Inr (Some (cvtColor api (frames ! (length frames - frames_to_calc))),
                   drop (Suc (length frames - frames_to_calc)) (map (cvtColor api) frames))"
      by (simp add: pop_reference_eq)
  qed
  have first: "length frames = frames_to_calc \<longrightarrow>
            pop_reference (prev_gray_frames s) =
              Inr (Some (cvtColor api (frames ! 0)), map (cvtColor api) (tl frames))"
    using gen by (auto simp: drop_Suc map_tl)
  show ?thesis using h le pop gen first by blast
qed

lemma ex_after_five:
  "map_option prev_gray_frames
     (after_frames_A ex_flow_api (map ex_frame [1, 2, 3, 4, 5]) (flow_init []))
   = Some [1, 2, 3, 4, 5]"
  by code_simp

theorem history_buffer_bounded_witness:
  "\<exists>s. after_frames_A ex_flow_api (map ex_frame [1, 2, 3, 4, 5]) (flow_init []) = Some s \<and>
     prev_gray_frames (flow_init [] :: (nat, nat) flow_state) = [] \<and>
     length (map ex_frame [1, 2, 3, 4, 5]) = frames_to_calc \<and>
     prev_gray_frames s = [1, 2, 3, 4, 5] \<and>
     pop_reference (prev_gray_frames s) = Inr (Some 1, [2, 3, 4, 5])"
proof -
  obtain s where a: "after_frames_A ex_flow_api (map ex_frame [1, 2, 3, 4, 5]) (flow_init []) = Some s"
    using ex_after_five by blast
  have e: "prev_gray_frames (flow_init [] :: (nat, nat) flow_state) = []"
    by (simp add: flow_init_def)
  have l: "length (map ex_frame [1, 2, 3, 4, 5]) = frames_to_calc"
    by (simp add: frames_to_calc_def)
  from history_buffer_bounded[OF a e] l
  have "prev_gray_frames s = drop (length (map ex_frame [1, 2, 3, 4, 5]) - frames_to_calc)
           (map (cvtColor ex_flow_api) (map ex_frame [1, 2, 3, 4, 5]))"
    and "pop_reference (prev_gray_frames s) =
              Inr (Some (cvtColor ex_flow_api (map ex_frame [1, 2, 3, 4, 5] ! 0)),
                   map (cvtColor ex_flow_api) (tl (map ex_frame [1, 2, 3, 4, 5])))"
    by blast+
  then have "prev_gray_frames s = [1, 2, 3, 4, 5] \<and>
     pop_reference (prev_gray_frames s) = Inr (Some 1, [2, 3, 4, 5])"
    by (simp add: frames_to_calc_def ex_flow_api_def ex_frame_def)
  then show ?thesis using a e l by blast
qed






section \<open>Filtering by status, arrows and corners\<close>

lemma selected_Cons:
  "selected (b # m) = (if b then [0] else []) @ map Suc (selected m)"
proof -
  have "[0..<Suc (length m)] = 0 # map Suc [0..<length m]"
    by (simp add: upt_conv_Cons map_Suc_upt del: upt_Suc)
  then show ?thesis
    by (simp add: selected_def filter_map o_def del: upt_Suc)
qed

lemma mask_filter_nth:
  "length a = length m \<Longrightarrow> map fst (filter snd (zip a m)) = map ((!) a) (selected m)"
  by (induction a m rule: list_induct2) (simp_all add: selected_Cons o_def selected_def[of "[]"])

lemma selected_sorted: "sorted_wrt (<) (selected m) \<and> set (selected m) = {i. i < length m \<and> m ! i}"
  by (auto simp: selected_def sorted_wrt_filter)

lemma track_points_filtered:
  assumes "calcOpticalFlowPyrLK api g prev (Some src) = Inr (Some dst, status)"
    and "length src = length status" and "length dst = length status"
  shows "track_points api s r g (Some prev) (Some src) =
           Inr (show_lines api s r (map ((!) src) (selected (status_mask status)))
                  (map ((!) dst) (selected (status_mask status))),
                Some (map ((!) src) (selected (status_mask status))))"
  using assms
  by (simp add: track_points_def np_mask_index_def mask_filter_nth status_mask_def)

text \<open>
  C2. Filtering a source array and a destination array of the mask's length by the mask
  yields, for both, the elements at the selected indices, in increasing order of index:
  two arrays of equal length whose \<open>i\<close>-th elements come from the same original index.
  This is how the loop filters: when flow estimation returns destination points and a
  status array of the length of the detected points, show\_lines receives the two arrays
  filtered by \<^verbatim>\<open>status == 1\<close>.
\<close>

theorem status_filter_lockstep:
  "(length src = length m \<and> length dst = length m \<longrightarrow>
      np_mask_index src m = Inr (map ((!) src) (selected m)) \<and>
      np_mask_index dst m = Inr (map ((!) dst) (selected m)) \<and>
      sorted_wrt (<) (selected m) \<and> set (selected m) = {i. i < length m \<and> m ! i} \<and>
      (\<exists>fs fd. np_mask_index src m = Inr fs \<and> np_mask_index dst m = Inr fd \<and>
         length fs = length fd \<and>
         (\<forall>i < length fs. fs ! i = src ! (selected m ! i) \<and> fd ! i = dst ! (selected m ! i)))) \<and>
   (calcOpticalFlowPyrLK api g prev (Some p_src) = Inr (Some p_dst, status) \<and>
    length p_src = length status \<and> length p_dst = length status \<longrightarrow>
      track_points api s r g (Some prev) (Some p_src) =
        Inr (show_lines api s r (map ((!) p_src) (selected (status_mask status)))
               (map ((!) p_dst) (selected (status_mask status))),
             Some (map ((!) p_src) (selected (status_mask status)))))"
proof (intro conjI impI)
  assume a: "calcOpticalFlowPyrLK api g prev (Some p_src) = Inr (Some p_dst, status) \<and>
    length p_src = length status \<and> length p_dst = length status"
  show "track_points api s r g (Some prev) (Some p_src) =
        Inr (show_lines api s r (map ((!) p_src) (selected (status_mask status)))
               (map ((!) p_dst) (selected (status_mask status))),
             Some (map ((!) p_src) (selected (status_mask status))))"
    by (rule track_points_filtered) (use a in simp_all)
qed (simp_all add: np_mask_index_def mask_filter_nth selected_sorted)

theorem status_filter_lockstep_witness:
  "length ([(1, 2), (3, 4), (5, 6)] :: points) = length [True, False, True] \<and>
   length ([(2, 2), (4, 4), (6, 6)] :: points) = length [True, False, True] \<and>
   np_mask_index ([(1, 2), (3, 4), (5, 6)] :: points) [True, False, True] = Inr [(1, 2), (5, 6)] \<and>
   np_mask_index ([(2, 2), (4, 4), (6, 6)] :: points) [True, False, True] = Inr [(2, 2), (6, 6)] \<and>
   selected [True, False, True] = [0, 2] \<and>
   calcOpticalFlowPyrLK ex_flow_api 6 1 (Some [(10, 20), (30, 40)])
     = Inr (Some [(13, 24), (33, 44)], [1, 0]) \<and>
   track_points ex_flow_api (flow_init []) 0 6 (Some 1) (Some [(10, 20), (30, 40)]) =
     Inr (show_lines ex_flow_api (flow_init []) 0 [(10, 20)] [(13, 24)], Some [(10, 20)])"
proof -
  have s: "selected [True, False, True] = [0, 2]" "selected (status_mask [Suc 0, 0]) = [0]"
    by (simp_all add: selected_Cons status_mask_def) (simp_all add: selected_def)
  have f: "calcOpticalFlowPyrLK ex_flow_api 6 1 (Some [(10, 20), (30, 40)])
     = Inr (Some [(13, 24), (33, 44)], [1, 0])"
    by (simp add: ex_flow_api_def)
  note th = status_filter_lockstep[where src = "[(1, 2), (3, 4), (5, 6)] :: points"
      and m = "[True, False, True]" and dst = "[(2, 2), (4, 4), (6, 6)] :: points"
      and api = ex_flow_api and g = 6 and prev = 1 and p_src = "[(10, 20), (30, 40)]"
      and p_dst = "[(13, 24), (33, 44)]" and status = "[1, 0]" and s = "flow_init []" and r = 0]
  show ?thesis
    using th f by (simp add: s)
qed

lemma fold_arrows:
  assumes "r < length hp"
  shows "fold (\<lambda>(i, (dst, src)) hp.
                     case dst of (x_dst, y_dst) \<Rightarrow> case src of (x_src, y_src) \<Rightarrow>
                       let color = colors (i mod 100);
                           hp1 = draw_on hp r
                                   (ArrowedLine (py_int x_src, py_int y_src)
                                      (py_int x_dst, py_int y_dst) color 2)
                       in draw_on hp1 r
                            (Circle (py_int x_src, py_int y_src) 10 color (- 1)))
                  (enumerate n ps) hp
         = hp[r := (hp ! r)\<lparr>marks := marks (hp ! r) @
              concat (map (\<lambda>(i, (a, b)). arrow_marks colors i a b) (enumerate n ps))\<rparr>]"
  using assms
proof (induction ps arbitrary: n hp)
  case Nil
  then show ?case by (simp add: list_update_same_conv)
next
  case (Cons p ps)
  then show ?case
    by (cases p) (simp add: draw_on_twice arrow_marks_def int_point_def Let_def split: prod.splits)
qed

lemma show_lines_heap:
  assumes "r < length (heap s)"
  shows "heap (show_lines api s r S D) = (heap s)[r := (heap s ! r)\<lparr>marks := marks (heap s ! r) @
           concat (map (\<lambda>(i, (a, b)). arrow_marks (randint api (rand_calls s)) i a b)
                    (enumerate 0 (zip S D)))\<rparr>]"
  using fold_arrows[OF assms] by (simp add: show_lines_def Let_def)

lemma fold_corners:
  assumes "r < length hp"
  shows "fold (\<lambda>corner hp1. case corner of (x, y) \<Rightarrow>
                 draw_on hp1 r (Circle (py_int x, py_int y) 5 (0, 0, 255) (- 1))) cs hp
         = hp[r := (hp ! r)\<lparr>marks := marks (hp ! r) @ map corner_mark cs\<rparr>]"
  using assms
proof (induction cs arbitrary: hp)
  case Nil
  then show ?case by (simp add: list_update_same_conv)
next
  case (Cons c cs)
  then show ?case
    by (cases c) (simp add: draw_on_def corner_mark_def int_point_def)
qed

lemma show_good_features_heap:
  "r < length hp \<Longrightarrow>
   show_good_features hp r (Some cs) =
     Inr (hp[r := (hp ! r)\<lparr>marks := marks (hp ! r) @ map corner_mark cs\<rparr>])"
  by (simp add: show_good_features_def fold_corners)

lemma body_A_tracked:
  assumes full: "frames_to_calc \<le> length (prev_gray_frames s)"
    and det: "goodFeaturesToTrack api (cvtColor api frame) = Some src"
    and flow: "calcOpticalFlowPyrLK api (cvtColor api frame) (hd (prev_gray_frames s)) (Some src)
                 = Inr (Some dst, status)"
    and l1: "length src = length status" and l2: "length dst = length status"
  shows "\<exists>s' brk. body_A api frame s = Inr (s', brk) \<and>
           marks (heap s' ! length (heap s)) = marks frame
             @ concat (map (\<lambda>(i, (a, b)). arrow_marks (randint api (rand_calls s)) i a b)
                 (enumerate 0 (zip (map ((!) src) (selected (status_mask status)))
                                   (map ((!) dst) (selected (status_mask status))))))
             @ map corner_mark (map ((!) src) (selected (status_mask status))) \<and>
           pixels (heap s' ! length (heap s)) = pixels frame \<and>
           Imshow (''Tracking '' @ testfile) (heap s' ! length (heap s)) \<in> set (trace s')"
proof -
  let ?S = "map ((!) src) (selected (status_mask status))"
  let ?D = "map ((!) dst) (selected (status_mask status))"
  let ?s0 = "s\<lparr>heap := heap s @ [frame], prev_gray_frames := tl (prev_gray_frames s)\<rparr>"
  have tp: "track_points api ?s0 (length (heap s)) (cvtColor api frame)
              (Some (hd (prev_gray_frames s))) (Some src)
            = Inr (show_lines api ?s0 (length (heap s)) ?S ?D, Some ?S)"
    by (rule track_points_filtered[OF flow l1 l2])
  have hl: "heap (show_lines api ?s0 (length (heap s)) ?S ?D) =
     (heap s @ [frame])[length (heap s) := frame\<lparr>marks := marks frame @
           concat (map (\<lambda>(i, (a, b)). arrow_marks (randint api (rand_calls s)) i a b)
                    (enumerate 0 (zip ?S ?D)))\<rparr>]"
    using show_lines_heap[of "length (heap s)" ?s0 api ?S ?D] by simp
  show ?thesis
    using full det
    by (auto simp: body_A_def pop_reference_eq np_copy_def Let_def tp hl show_good_features_heap
        cv2_waitKey_def emit_def split: list.splits)
qed

lemma body_A_untracked:
  assumes full: "frames_to_calc \<le> length (prev_gray_frames s)"
    and det: "goodFeaturesToTrack api (cvtColor api frame) = Some src"
    and flow: "calcOpticalFlowPyrLK api (cvtColor api frame) (hd (prev_gray_frames s)) (Some src)
                 = Inr (None, status)"
  shows "\<exists>s' brk. body_A api frame s = Inr (s', brk) \<and>
           marks (heap s' ! length (heap s)) = marks frame @ map corner_mark src"
  using full det flow
  by (auto simp: body_A_def pop_reference_eq np_copy_def Let_def track_points_def
      show_good_features_heap cv2_waitKey_def emit_def split: list.splits)

lemma body_A_no_reference:
  assumes "length (prev_gray_frames s) < frames_to_calc"
  shows "body_A api frame s =
    (case show_good_features (heap s @ [frame]) (length (heap s))
            (goodFeaturesToTrack api (cvtColor api frame)) of
       Inl e \<Rightarrow> Inl (e, trace s)
     | Inr hp2 \<Rightarrow>
         (let esc = ((case keys s of [] \<Rightarrow> - 1 | k # ks \<Rightarrow> k) AND 255 = 27)
          in Inr (s\<lparr>heap := hp2, keys := tl (keys s),
                    trace := trace s @ [Imshow (''Tracking '' @ testfile) (hp2 ! length (heap s))]
                               @ (if esc then [] else [Sleep]),
                    prev_gray_frames :=
                      (if esc then prev_gray_frames s
                       else deque_append frames_to_calc (prev_gray_frames s) (cvtColor api frame))\<rparr>,
                  esc)))"
  using assms
  by (auto simp: body_A_def pop_reference_eq np_copy_def Let_def track_points_def
      cv2_waitKey_def emit_def split: list.splits sum.splits)

lemma body_A_null_corners:
  assumes "goodFeaturesToTrack api (cvtColor api frame) = None"
  shows "\<exists>e. body_A api frame s = Inl (e, trace s)"
  using assms
  by (auto simp: body_A_def pop_reference_eq np_copy_def Let_def track_points_def
      show_good_features_def split: sum.splits option.splits prod.splits)

text \<open>
  C7, as amended. On an iteration whose history buffer is full and whose flow estimation
  returns a point set, the frame shown carries, for each point whose status is 1, an
  arrow joining its detected point and its flow result (the tail at the flow result)
  and a circle of radius 10 at the flow result, and then a circle of radius 5 at each
  detected point whose status is 1. When flow estimation returns no point set, there is
  no arrow and the circles are at all detected corners.
\<close>

theorem arrows_and_circles_drawn:
  "(frames_to_calc \<le> length (prev_gray_frames s) \<and>
    goodFeaturesToTrack api (cvtColor api frame) = Some src \<and>
    calcOpticalFlowPyrLK api (cvtColor api frame) (hd (prev_gray_frames s)) (Some src)
      = Inr (Some dst, status) \<and>
    length src = length status \<and> length dst = length status \<longrightarrow>
      (\<exists>s' brk. body_A api frame s = Inr (s', brk) \<and>
         marks (heap s' ! length (heap s)) = marks frame
           @ concat (map (\<lambda>(i, (a, b)). arrow_marks (randint api (rand_calls s)) i a b)
               (enumerate 0 (zip (map ((!) src) (selected (status_mask status)))
                                 (map ((!) dst) (selected (status_mask status))))))
           @ map corner_mark (map ((!) src) (selected (status_mask status))) \<and>
         pixels (heap s' ! length (heap s)) = pixels frame \<and>
         Imshow (''Tracking '' @ testfile) (heap s' ! length (heap s)) \<in> set (trace s'))) \<and>
   (frames_to_calc \<le> length (prev_gray_frames s) \<and>
    goodFeaturesToTrack api (cvtColor api frame) = Some src \<and>
    calcOpticalFlowPyrLK api (cvtColor api frame) (hd (prev_gray_frames s)) (Some src)
      = Inr (None, status) \<longrightarrow>
      (\<exists>s' brk. body_A api frame s = Inr (s', brk) \<and>
         marks (heap s' ! length (heap s)) = marks frame @ map corner_mark src))"
proof (intro conjI impI)
  assume a: "frames_to_calc \<le> length (prev_gray_frames s) \<and>
    goodFeaturesToTrack api (cvtColor api frame) = Some src \<and>
    calcOpticalFlowPyrLK api (cvtColor api frame) (hd (prev_gray_frames s)) (Some src)
      = Inr (Some dst, status) \<and>
    length src = length status \<and> length dst = length status"
  show "\<exists>s' brk. body_A api frame s = Inr (s', brk) \<and>
         marks (heap s' ! length (heap s)) = marks frame
           @ concat (map (\<lambda>(i, (a, b)). arrow_marks (randint api (rand_calls s)) i a b)
               (enumerate 0 (zip (map ((!) src) (selected (status_mask status)))
                                 (map ((!) dst) (selected (status_mask status))))))
           @ map corner_mark (map ((!) src) (selected (status_mask status))) \<and>
         pixels (heap s' ! length (heap s)) = pixels frame \<and>
         Imshow (''Tracking '' @ testfile) (heap s' ! length (heap s)) \<in> set (trace s')"
    by (rule body_A_tracked) (use a in simp_all)
next
  assume a: "frames_to_calc \<le> length (prev_gray_frames s) \<and>
    goodFeaturesToTrack api (cvtColor api frame) = Some src \<and>
    calcOpticalFlowPyrLK api (cvtColor api frame) (hd (prev_gray_frames s)) (Some src)
      = Inr (None, status)"
  show "\<exists>s' brk. body_A api frame s = Inr (s', brk) \<and>
         marks (heap s' ! length (heap s)) = marks frame @ map corner_mark src"
    by (rule body_A_untracked) (use a in simp_all)
qed

theorem arrows_and_circles_drawn_witness:
  "frames_to_calc \<le> length (prev_gray_frames ex_full_state) \<and>
   goodFeaturesToTrack ex_flow_api (cvtColor ex_flow_api (ex_frame 6)) = Some [(10, 20), (30, 40)] \<and>
   calcOpticalFlowPyrLK ex_flow_api (cvtColor ex_flow_api (ex_frame 6))
      (hd (prev_gray_frames ex_full_state)) (Some [(10, 20), (30, 40)])
      = Inr (Some [(13, 24), (33, 44)], [1, 0]) \<and>
   (\<exists>s' brk. body_A ex_flow_api (ex_frame 6) ex_full_state = Inr (s', brk) \<and>
      marks (heap s' ! 0) =
        [ArrowedLine (13, 24) (10, 20) (0, 0, 0) 2, Circle (13, 24) 10 (0, 0, 0) (- 1),
         Circle (10, 20) 5 (0, 0, 255) (- 1)]) \<and>
   calcOpticalFlowPyrLK (ex_flow_api\<lparr>calcOpticalFlowPyrLK := \<lambda>g prev p. Inr (None, [])\<rparr>)
      (cvtColor ex_flow_api (ex_frame 6)) (hd (prev_gray_frames ex_full_state))
      (Some [(10, 20), (30, 40)]) = Inr (None, []) \<and>
   (\<exists>s' brk. body_A (ex_flow_api\<lparr>calcOpticalFlowPyrLK := \<lambda>g prev p. Inr (None, [])\<rparr>)
        (ex_frame 6) ex_full_state = Inr (s', brk) \<and>
      marks (heap s' ! 0) = [Circle (10, 20) 5 (0, 0, 255) (- 1), Circle (30, 40) 5 (0, 0, 255) (- 1)])"
proof -
  let ?api2 = "ex_flow_api\<lparr>calcOpticalFlowPyrLK := \<lambda>g prev p. Inr (None, [])\<rparr>"
  have full: "frames_to_calc \<le> length (prev_gray_frames ex_full_state)"
    by (simp add: ex_full_state_def frames_to_calc_def)
  have h0: "length (heap ex_full_state) = 0" "rand_calls ex_full_state = 0"
    by (simp_all add: ex_full_state_def flow_init_def)
  have det: "goodFeaturesToTrack ex_flow_api (cvtColor ex_flow_api (ex_frame 6)) = Some [(10, 20), (30, 40)]"
    "goodFeaturesToTrack ?api2 (cvtColor ?api2 (ex_frame 6)) = Some [(10, 20), (30, 40)]"
    by (simp_all add: ex_flow_api_def ex_frame_def)
  have flow: "calcOpticalFlowPyrLK ex_flow_api (cvtColor ex_flow_api (ex_frame 6))
      (hd (prev_gray_frames ex_full_state)) (Some [(10, 20), (30, 40)])
      = Inr (Some [(13, 24), (33, 44)], [1, 0])"
    by (simp add: ex_flow_api_def)
  have flow2: "calcOpticalFlowPyrLK ?api2 (cvtColor ?api2 (ex_frame 6))
      (hd (prev_gray_frames ex_full_state)) (Some [(10, 20), (30, 40)]) = Inr (None, [])"
    by simp
  have sel: "selected (status_mask [Suc 0, 0]) = [0]"
    by (simp add: selected_Cons status_mask_def) (simp add: selected_def)
  from arrows_and_circles_drawn[where s = ex_full_state and api = ex_flow_api and frame = "ex_frame 6"
      and src = "[(10, 20), (30, 40)]" and dst = "[(13, 24), (33, 44)]" and status = "[1, 0]",
      THEN conjunct1] full det(1) flow
  obtain s' brk where b: "body_A ex_flow_api (ex_frame 6) ex_full_state = Inr (s', brk)"
    and m: "marks (heap s' ! length (heap ex_full_state)) = marks (ex_frame 6)
           @ concat (map (\<lambda>(i, (a, b)). arrow_marks (randint ex_flow_api (rand_calls ex_full_state)) i a b)
               (enumerate 0 (zip (map ((!) [(10, 20), (30, 40)]) (selected (status_mask [1, 0])))
                                 (map ((!) [(13, 24), (33, 44)]) (selected (status_mask [1, 0]))))))
           @ map corner_mark (map ((!) [(10, 20), (30, 40)]) (selected (status_mask [1, 0])))"
    by auto
  have m1: "marks (heap s' ! 0) =
        [ArrowedLine (13, 24) (10, 20) (0, 0, 0) 2, Circle (13, 24) 10 (0, 0, 0) (- 1),
         Circle (10, 20) 5 (0, 0, 255) (- 1)]"
    using m unfolding h0
    by (simp add: sel arrow_marks_def corner_mark_def int_point_def py_int_def ex_flow_api_def
        ex_frame_def)
  from arrows_and_circles_drawn[where s = ex_full_state and api = ?api2 and frame = "ex_frame 6"
      and src = "[(10, 20), (30, 40)]" and status = "[]", THEN conjunct2] full det(2) flow2
  obtain t' brk2 where b2: "body_A ?api2 (ex_frame 6) ex_full_state = Inr (t', brk2)"
    and m2: "marks (heap t' ! length (heap ex_full_state)) = marks (ex_frame 6)
           @ map corner_mark [(10, 20), (30, 40)]"
    by auto
  have m3: "marks (heap t' ! 0) = [Circle (10, 20) 5 (0, 0, 255) (- 1), Circle (30, 40) 5 (0, 0, 255) (- 1)]"
    using m2 unfolding h0
    by (simp add: corner_mark_def int_point_def py_int_def ex_frame_def)
  show ?thesis
    using full det(1) flow b m1 b2 m3 by auto
qed

text \<open>
  C7 as stated fails on the sixth frame of a stream. The detector finds (10, 20) and
  (30, 40); the flow estimator returns (13, 24) and (33, 44) with status 1 and 0. The
  arrow drawn starts at the flow result (13, 24) and ends at the detected point (10, 20),
  and the detected corner (30, 40), whose status is 0, gets no circle.
\<close>

theorem arrow_from_detected_point_fails:
  "goodFeaturesToTrack ex_flow_api (cvtColor ex_flow_api (ex_frame 6)) = Some [(10, 20), (30, 40)] \<and>
   calcOpticalFlowPyrLK ex_flow_api 6 1 (Some [(10, 20), (30, 40)])
      = Inr (Some [(13, 24), (33, 44)], [1, 0]) \<and>
   map_option (\<lambda>s. marks (heap s ! 5))
     (after_frames_A ex_flow_api (map ex_frame [1, 2, 3, 4, 5, 6]) (flow_init []))
   = Some [ArrowedLine (13, 24) (10, 20) (0, 0, 0) 2, Circle (13, 24) 10 (0, 0, 0) (- 1),
           Circle (10, 20) 5 (0, 0, 255) (- 1)]"
  by code_simp

text \<open>
  C8, what the code does. When the corner detector returns \<^verbatim>\<open>None\<close>, the iteration does not
  complete: it raises, whatever the state;
  while the history buffer is not full the exception is the TypeError of iterating over
  \<^verbatim>\<open>None\<close> in show\_good\_features. With an empty point set and the buffer not full the
  iteration completes and the frame shown is a copy of the frame read, with nothing
  drawn.
\<close>

theorem null_corners_raise:
  "(goodFeaturesToTrack api (cvtColor api frame) = None \<longrightarrow>
      (\<exists>e. body_A api frame s = Inl (e, trace s))) \<and>
   (goodFeaturesToTrack api (cvtColor api frame) = None \<and>
    length (prev_gray_frames s) < frames_to_calc \<longrightarrow>
      body_A api frame s = Inl (TypeError, trace s)) \<and>
   (goodFeaturesToTrack api (cvtColor api frame) = Some [] \<and>
    length (prev_gray_frames s) < frames_to_calc \<longrightarrow>
      (\<exists>s' brk. body_A api frame s = Inr (s', brk) \<and> heap s' ! length (heap s) = frame))"
proof (intro conjI impI)
  assume "goodFeaturesToTrack api (cvtColor api frame) = None"
  then show "\<exists>e. body_A api frame s = Inl (e, trace s)"
    by (rule body_A_null_corners)
next
  assume "goodFeaturesToTrack api (cvtColor api frame) = None \<and>
    length (prev_gray_frames s) < frames_to_calc"
  then show "body_A api frame s = Inl (TypeError, trace s)"
    by (simp add: body_A_no_reference show_good_features_def)
next
  assume "goodFeaturesToTrack api (cvtColor api frame) = Some [] \<and>
    length (prev_gray_frames s) < frames_to_calc"
  then show "\<exists>s' brk. body_A api frame s = Inr (s', brk) \<and> heap s' ! length (heap s) = frame"
    by (simp add: body_A_no_reference show_good_features_def Let_def)
qed

theorem null_corners_raise_witness:
  "goodFeaturesToTrack ex_flow_api (cvtColor ex_flow_api (ex_frame 0)) = None \<and>
   length (prev_gray_frames (flow_init [] :: (nat, nat) flow_state)) < frames_to_calc \<and>
   body_A ex_flow_api (ex_frame 0) (flow_init []) = Inl (TypeError, []) \<and>
   optical_flow_demo ex_flow_api [Some (ex_frame 0)] [] = Inl (TypeError, []) \<and>
   goodFeaturesToTrack (ex_flow_api\<lparr>goodFeaturesToTrack := \<lambda>g. Some []\<rparr>)
     (cvtColor ex_flow_api (ex_frame 0)) = Some [] \<and>
   (\<exists>s' brk. body_A (ex_flow_api\<lparr>goodFeaturesToTrack := \<lambda>g. Some []\<rparr>) (ex_frame 0)
        (flow_init []) = Inr (s', brk) \<and> heap s' ! 0 = ex_frame 0)"
proof -
  let ?api2 = "ex_flow_api\<lparr>goodFeaturesToTrack := \<lambda>g. Some []\<rparr>"
  have det: "goodFeaturesToTrack ex_flow_api (cvtColor ex_flow_api (ex_frame 0)) = None"
    by (simp add: ex_flow_api_def ex_frame_def)
  have l: "length (prev_gray_frames (flow_init [] :: (nat, nat) flow_state)) < frames_to_calc"
    by (simp add: flow_init_def frames_to_calc_def)
  have t: "trace (flow_init [] :: (nat, nat) flow_state) = []"
    "length (heap (flow_init [] :: (nat, nat) flow_state)) = 0"
    by (simp_all add: flow_init_def)
  have b: "body_A ex_flow_api (ex_frame 0) (flow_init []) = Inl (TypeError, [])"
    using null_corners_raise[where api = ex_flow_api and frame = "ex_frame 0" and s = "flow_init []",
        THEN conjunct2, THEN conjunct1] det l
    by (simp add: t)
  have d: "optical_flow_demo ex_flow_api [Some (ex_frame 0)] [] = Inl (TypeError, [])"
    by (simp add: optical_flow_demo_def b)
  have det2: "goodFeaturesToTrack ?api2 (cvtColor ?api2 (ex_frame 0)) = Some []"
    by simp
  have "\<exists>s' brk. body_A ?api2 (ex_frame 0) (flow_init []) = Inr (s', brk) \<and>
      heap s' ! length (heap (flow_init [] :: (nat, nat) flow_state)) = ex_frame 0"
    using null_corners_raise[where api = ?api2 and frame = "ex_frame 0" and s = "flow_init []",
        THEN conjunct2, THEN conjunct2] det2 l
    by blast
  then show ?thesis
    using det l b d by (simp add: t)
qed

end
